theory Spec2Isabelle
  imports Complex_Main "HOL-Library.AList"
begin

section \<open>The face-recognition pipeline of \<^verbatim>\<open>/static/face-recognizer.js\<close>\<close>

text \<open>
  The class \<^verbatim>\<open>FaceRecognition\<close> is embedded method by method. JavaScript runs these
  methods on one thread; an \<^verbatim>\<open>async\<close> method is modelled as running to completion, with
  the outcome of every awaited browser or library call handed in as an argument. An
  exception is a value of type \<open>error\<close>; a method that can throw returns the exception (if
  any) together with the state it leaves behind, because JavaScript keeps the assignments
  made before the throw.
\<close>

subsection \<open>Model loading (the static method \<^verbatim>\<open>loadModels\<close>)\<close>

datatype net = SsdMobilenetv1 | FaceRecognitionNet | FaceLandmark68Net | FaceExpressionNet

text \<open>
  The outcome of the promise stored in \<^verbatim>\<open>FaceRecognition.modelLoader\<close>: it resolves to
  \<^verbatim>\<open>true\<close>, or rejects with the array of the reasons of the rejected loads.
\<close>

datatype settled = ResolvedTrue | RejectedWith "string list"

text \<open>
  The static side of the class. Promises are objects with an identity, so they live in a
  store (\<open>promises\<close>, indexed by creation order) and \<open>modelLoader\<close> holds a reference;
  \<open>None\<close> is JavaScript's \<^verbatim>\<open>undefined\<close>. \<open>loadCalls\<close> records every call of
  \<^verbatim>\<open>loadFromUri\<close> that was made, \<open>errorLog\<close> every \<^verbatim>\<open>console.error\<close> of the method.

  \<^verbatim>\<open>loadModels\<close> is an \<^verbatim>\<open>async\<close> method: what a caller holds is a promise that adopts the
  promise of the \<^verbatim>\<open>return\<close> statement and settles as that one does. The model
  identifies the two, so a call returns the reference found in \<open>modelLoader\<close>.
\<close>

record registry =
  modelLoader :: "nat option"
  promises :: "settled list"
  loadCalls :: "(net \<times> string) list"
  errorLog :: "string list list"

definition registry0 :: registry where
  "registry0 = \<lparr>modelLoader = None, promises = [], loadCalls = [], errorLog = []\<rparr>"

text \<open>The four networks, in the order of the array given to \<^verbatim>\<open>Promise.allSettled\<close>.\<close>

definition nets :: "net list" where
  "nets = [SsdMobilenetv1, FaceRecognitionNet, FaceLandmark68Net, FaceExpressionNet]"

text \<open>
  \<open>fetchNet n uri\<close> is how the promise of \<^verbatim>\<open>faceapi.nets.n.loadFromUri(uri)\<close> settles:
  \<open>None\<close> when it fulfils, \<open>Some reason\<close> when it rejects.
\<close>

type_synonym loader = "net \<Rightarrow> string \<Rightarrow> string option"

text \<open>
  The \<^verbatim>\<open>then\<close> callback: \<^verbatim>\<open>results.some(rejected)\<close>, the reasons of the rejected
  results in order, \<^verbatim>\<open>Promise.reject(errors)\<close>, otherwise \<^verbatim>\<open>true\<close>.
\<close>

definition aggregate :: "string option list \<Rightarrow> settled" where
  "aggregate results =
     (if \<exists>r \<in> set results. r \<noteq> None
      then RejectedWith (map the (filter (\<lambda>r. r \<noteq> None) results))
      else ResolvedTrue)"

definition loadModels :: "loader \<Rightarrow> string \<Rightarrow> registry \<Rightarrow> nat \<times> registry" where
  "loadModels fetchNet modelUri r =
     (case modelLoader r of
        None \<Rightarrow>
          (let results = map (\<lambda>n. fetchNet n modelUri) nets;
               outcome = aggregate results;
               p = length (promises r)
           in (p, r\<lparr>modelLoader := Some p,
                    promises := promises r @ [outcome],
                    loadCalls := loadCalls r @ map (\<lambda>n. (n, modelUri)) nets,
                    errorLog := (case outcome of
                                   RejectedWith errors \<Rightarrow> errorLog r @ [errors]
                                 | ResolvedTrue \<Rightarrow> errorLog r)\<rparr>))
      | Some p \<Rightarrow> (p, r))"

text \<open>
  A run of calls, one per locator of the list, in the order in which the single thread
  executes them; the result is the promise each caller got, and the registry afterwards.
\<close>

fun loadAll :: "loader \<Rightarrow> string list \<Rightarrow> registry \<Rightarrow> nat list \<times> registry" where
  "loadAll fetchNet [] r = ([], r)"
| "loadAll fetchNet (u # us) r =
     (let (p, r') = loadModels fetchNet u r;
          (ps, r'') = loadAll fetchNet us r'
      in (p # ps, r''))"

text \<open>What a caller observes when it awaits the promise it was given.\<close>

definition await :: "registry \<Rightarrow> nat \<Rightarrow> settled" where
  "await r p = promises r ! p"

subsection \<open>Data of a pipeline instance\<close>

type_synonym descriptor = "real list"
type_synonym box = "real \<times> real \<times> real \<times> real"

text \<open>
  A JavaScript \<^verbatim>\<open>Map\<close> from label to descriptors keeps its keys in insertion order, and
  \<^verbatim>\<open>set\<close> on a present key replaces the value in place: an association list with
  \<^const>\<open>AList.update\<close>. \<^verbatim>\<open>has\<close> is \<open>map_of g l \<noteq> None\<close> and \<^verbatim>\<open>size === 0\<close> is \<open>g = []\<close>.
\<close>

type_synonym gallery = "(string \<times> descriptor list) list"

datatype error = TypeError string | Thrown string

record configuration =
  modelUri :: string
  videoElementId :: string
  labels :: "string list"
  minConfidenceThreshold :: real
  distanceThreshold :: real
  smileDetectionThreshold :: real

text \<open>
  One entry of the resized detections: \<^verbatim>\<open>detection.detection.box\<close>, \<^verbatim>\<open>detection.descriptor\<close>
  and \<^verbatim>\<open>detection.expressions\<close>, which may be missing (\<open>None\<close>), as may its property
  \<^verbatim>\<open>happy\<close>. Numbers are reals: the code only compares them.
\<close>

record detection =
  box :: box
  descriptor :: descriptor
  expressions :: "(string \<rightharpoonup> real) option"

text \<open>
  The object returned by \<^verbatim>\<open>findBestMatch\<close>. A \<^verbatim>\<open>distance\<close> that is missing or not a
  number is \<open>None\<close>; JavaScript evaluates \<^verbatim>\<open>undefined < x\<close> and \<^verbatim>\<open>undefined > x\<close> to
  \<^verbatim>\<open>false\<close>, and likewise for \<^verbatim>\<open>NaN\<close>. The same holds for a score in \<open>expressions\<close>.
\<close>

record match =
  label :: string
  distance :: "real option"

text \<open>A matcher object, holding the labelled descriptors its constructor was given.\<close>

datatype FaceMatcher = FaceMatcher gallery

text \<open>
  The three entry points of the face-api library that touch a matcher. The library is
  the third-party bundle \<^verbatim>\<open>/static/face-api.min.js\<close>, which the page loads beside the
  script, so the methods of the class take it as an argument. An error thrown by
  \<^verbatim>\<open>new faceapi.LabeledFaceDescriptors\<close> counts as one of the constructor of the matcher.
\<close>

record faceapi =
  newFaceMatcher :: "gallery \<Rightarrow> error + FaceMatcher"
  findBestMatch :: "FaceMatcher \<Rightarrow> descriptor \<Rightarrow> error + match"
  dispose :: "FaceMatcher \<Rightarrow> error option"

text \<open>
  Modelled from the spec: the matcher of \<^verbatim>\<open>/static/face-api.min.js\<close> (constructor
  \<^verbatim>\<open>FaceMatcher\<close>, \<^verbatim>\<open>findBestMatch\<close>, \<^verbatim>\<open>dispose\<close>), which is missing from the sources.
  The spec's words: the Matcher is an ``immutable snapshot built from a Gallery'' that
  ``exposes a query(descriptor) \<rightarrow> (best label or "unknown", distance)''; it is built ``from
  whatever Gallery is available, including an empty Gallery, which yields a matcher that
  classifies every probe as "unknown" (never throws on empty input)''; querying the matcher
  of an empty Gallery ``returns "unknown" with no match''. The spec does not say how the
  best label of a non-empty Gallery is found, so that lookup is the argument \<open>nearest\<close>.
\<close>

definition specMatcher :: "(gallery \<Rightarrow> descriptor \<Rightarrow> match) \<Rightarrow> faceapi" where
  "specMatcher nearest =
     \<lparr>newFaceMatcher = (\<lambda>g. Inr (FaceMatcher g)),
      findBestMatch = (\<lambda>m probe. case m of FaceMatcher g \<Rightarrow>
         if g = [] then Inr \<lparr>label = ''unknown'', distance = None\<rparr> else Inr (nearest g probe)),
      dispose = (\<lambda>m. None)\<rparr>"

text \<open>
  The fields of the class, followed by the part of the browser the methods act on.
  Canvas elements and camera tracks are numbered; \<open>None\<close> is \<^verbatim>\<open>undefined\<close> or \<^verbatim>\<open>null\<close>.
  \<open>videoElement\<close> is the \<^verbatim>\<open>width\<close> and \<^verbatim>\<open>height\<close> of the video element, which the
  constructor always sets (found or created) and nothing clears. The pool is a
  JavaScript array used as a stack: \<^verbatim>\<open>push\<close> appends and \<^verbatim>\<open>pop\<close> takes the last element.
\<close>

record FaceRecognition =
  config :: configuration
  videoElement :: "nat \<times> nat"
  canvas :: "nat option"
  displaySize :: "(nat \<times> nat) option"
  labeledDescriptors :: gallery
  canvasPool :: "nat list"
  faceMatcher :: "FaceMatcher option"
  videoStream :: "nat list option"
  srcObject :: "nat list option"
  documentBody :: "nat list"
  canvasesCreated :: nat
  canvasesRemoved :: "nat list"
  tracksStopped :: "nat list"
  playListeners :: nat
  animationFrames :: nat
  console :: "string list"
  fetched :: "string list"
  painted :: "(box \<times> string) list"

definition maxCanvasPoolSize :: nat where
  "maxCanvasPoolSize = 10"

text \<open>The constructor, for a page whose video element has the given size.\<close>

definition constructor :: "configuration \<Rightarrow> nat \<times> nat \<Rightarrow> FaceRecognition" where
  "constructor cfg video =
     \<lparr>config = cfg, videoElement = video, canvas = None, displaySize = None,
      labeledDescriptors = [], canvasPool = [], faceMatcher = None, videoStream = None,
      srcObject = None, documentBody = [], canvasesCreated = 0, canvasesRemoved = [],
      tracksStopped = [], playListeners = 0, animationFrames = 0, console = [],
      fetched = [], painted = []\<rparr>"

subsection \<open>Canvases and the canvas pool\<close>

text \<open>
  \<^verbatim>\<open>this.canvasPool.length > 0 ? this.canvasPool.pop() : document.createElement('canvas')\<close>
  followed by \<^verbatim>\<open>document.body.append\<close>, which moves an element that is already attached.
  \<^verbatim>\<open>faceapi.matchDimensions\<close> copies \<open>displaySize\<close> to the width and height of the
  canvas; the size of a canvas is not recorded.
\<close>

definition takeCanvas :: "FaceRecognition \<Rightarrow> FaceRecognition" where
  "takeCanvas s =
     (let (c, s1) = (if length (canvasPool s) > 0
                     then (last (canvasPool s), s\<lparr>canvasPool := butlast (canvasPool s)\<rparr>)
                     else (canvasesCreated s, s\<lparr>canvasesCreated := Suc (canvasesCreated s)\<rparr>))
      in s1\<lparr>canvas := Some c, documentBody := removeAll c (documentBody s1) @ [c]\<rparr>)"

definition setupCanvas :: "FaceRecognition \<Rightarrow> FaceRecognition" where
  "setupCanvas s =
     (if canvas s = None then (takeCanvas s)\<lparr>displaySize := Some (videoElement s)\<rparr> else s)"

definition createCanvas :: "FaceRecognition \<Rightarrow> FaceRecognition" where
  "createCanvas s = (if canvas s = None then takeCanvas s else s)"

definition updateCanvasSize :: "FaceRecognition \<Rightarrow> FaceRecognition" where
  "updateCanvasSize s =
     (if canvas s \<noteq> None then s\<lparr>displaySize := Some (videoElement s)\<rparr> else s)"

definition cleanupCanvas :: "FaceRecognition \<Rightarrow> FaceRecognition" where
  "cleanupCanvas s =
     (case canvas s of
        None \<Rightarrow> s
      | Some c \<Rightarrow>
          (if length (canvasPool s) < maxCanvasPoolSize
           then s\<lparr>canvasPool := canvasPool s @ [c]\<rparr>
           else s\<lparr>documentBody := removeAll c (documentBody s),
                  canvasesRemoved := canvasesRemoved s @ [c]\<rparr>)\<lparr>canvas := None\<rparr>)"

text \<open>The three methods that take a canvas from the pool or give one back.\<close>

datatype poolOp = SetupCanvas | CreateCanvas | CleanupCanvas

fun poolStep :: "poolOp \<Rightarrow> FaceRecognition \<Rightarrow> FaceRecognition" where
  "poolStep SetupCanvas s = setupCanvas s"
| "poolStep CreateCanvas s = createCanvas s"
| "poolStep CleanupCanvas s = cleanupCanvas s"

fun poolRun :: "poolOp list \<Rightarrow> FaceRecognition \<Rightarrow> FaceRecognition" where
  "poolRun [] s = s"
| "poolRun (o1 # os) s = poolRun os (poolStep o1 s)"

subsection \<open>The gallery\<close>

text \<open>
  What the reference image of a label gives: \<^verbatim>\<open>fetchImage\<close> or the detection on it
  throws (\<open>Fails\<close>, with the text of the error), or the detection returns the descriptors
  of the faces found, possibly none. Within one build a label gives the same outcome
  each time it is asked for.
\<close>

datatype reference = Fails string | Faces "descriptor list"

definition imagePath :: "string \<Rightarrow> string" where
  "imagePath l = ''/static/labels/'' @ l @ ''.jpg''"

text \<open>
  The loop of \<^verbatim>\<open>getLabeledFaceDescriptors\<close>, with the local map \<^verbatim>\<open>descriptors\<close> as
  accumulator. Both calls that can throw stand inside the \<^verbatim>\<open>try\<close> block, whose handler
  only logs; the method itself never assigns \<^verbatim>\<open>this.labeledDescriptors\<close>.
\<close>

fun buildLoop ::
  "(string \<Rightarrow> reference) \<Rightarrow> string list \<Rightarrow> gallery \<Rightarrow> FaceRecognition \<Rightarrow> gallery \<times> FaceRecognition"
where
  "buildLoop refs [] descriptors s = (descriptors, s)"
| "buildLoop refs (l # ls) descriptors s =
     (if map_of (labeledDescriptors s) l \<noteq> None then buildLoop refs ls descriptors s
      else (case refs l of
              Fails e \<Rightarrow>
                buildLoop refs ls descriptors
                  (s\<lparr>fetched := fetched s @ [imagePath l],
                     console := console s @ [''Error processing image '' @ imagePath l @ '': '' @ e]\<rparr>)
            | Faces ds \<Rightarrow>
                buildLoop refs ls
                  (if length ds > 0 then AList.update l ds descriptors else descriptors)
                  (s\<lparr>fetched := fetched s @ [imagePath l]\<rparr>)))"

definition getLabeledFaceDescriptors ::
  "(string \<Rightarrow> reference) \<Rightarrow> string list \<Rightarrow> FaceRecognition \<Rightarrow> gallery \<times> FaceRecognition"
where
  "getLabeledFaceDescriptors refs ls s = buildLoop refs ls [] s"

subsection \<open>The matcher\<close>

definition setupFaceMatcher ::
  "faceapi \<Rightarrow> (string \<Rightarrow> reference) \<Rightarrow> FaceRecognition \<Rightarrow> error option \<times> FaceRecognition"
where
  "setupFaceMatcher api refs s =
     (if faceMatcher s = None
      then (let s1 = (if labeledDescriptors s = []
                      then (let (g, s') = getLabeledFaceDescriptors refs (labels (config s)) s
                            in s'\<lparr>labeledDescriptors := g\<rparr>)
                      else s)
            in case newFaceMatcher api (labeledDescriptors s1) of
                 Inl e \<Rightarrow> (Some e, s1)
               | Inr m \<Rightarrow> (None, s1\<lparr>faceMatcher := Some m\<rparr>))
      else (None, s))"

definition disposeFaceMatcher ::
  "faceapi \<Rightarrow> FaceRecognition \<Rightarrow> error option \<times> FaceRecognition"
where
  "disposeFaceMatcher api s =
     (case faceMatcher s of
        None \<Rightarrow> (None, s)
      | Some m \<Rightarrow>
          (case dispose api m of
             Some e \<Rightarrow> (Some e, s)
           | None \<Rightarrow> (None, s\<lparr>faceMatcher := None\<rparr>)))"

definition disposeUnusedResources :: "FaceRecognition \<Rightarrow> FaceRecognition" where
  "disposeUnusedResources s = s\<lparr>labeledDescriptors := []\<rparr>"

subsection \<open>The camera\<close>

text \<open>
  \<open>camera\<close> is the outcome of \<^verbatim>\<open>getUserMedia\<close>: an error, or the tracks of the new stream.
  The video element is taken to report its metadata, so that the method goes on to the
  canvas.
\<close>

definition setupWebcam :: "error + nat list \<Rightarrow> FaceRecognition \<Rightarrow> error option \<times> FaceRecognition" where
  "setupWebcam camera s =
     (if videoStream s = None
      then (case camera of
              Inl e \<Rightarrow> (Some e, s)
            | Inr tracks \<Rightarrow>
                (None, updateCanvasSize (createCanvas
                         (s\<lparr>videoStream := Some tracks, srcObject := Some tracks\<rparr>))))
      else (None, s))"

text \<open>
  \<^verbatim>\<open>this.videoStream.getTracks().map(track => track.stop())\<close>: the tracks are stopped in
  order, and a call that throws (\<open>throws t\<close>) ends the \<^verbatim>\<open>map\<close> at once.
\<close>

fun stopTracks :: "(nat \<Rightarrow> bool) \<Rightarrow> nat list \<Rightarrow> nat list \<Rightarrow> error option \<times> nat list" where
  "stopTracks throws [] stopped = (None, stopped)"
| "stopTracks throws (t # ts) stopped =
     (if throws t then (Some (Thrown ''track.stop''), stopped)
      else stopTracks throws ts (stopped @ [t]))"

definition stopWebcam ::
  "faceapi \<Rightarrow> (nat \<Rightarrow> bool) \<Rightarrow> FaceRecognition \<Rightarrow> error option \<times> FaceRecognition"
where
  "stopWebcam api throws s =
     (case videoStream s of
        None \<Rightarrow> (None, s)
      | Some tracks \<Rightarrow>
          (case stopTracks throws tracks (tracksStopped s) of
             (Some e, stopped) \<Rightarrow> (Some e, s\<lparr>tracksStopped := stopped\<rparr>)
           | (None, stopped) \<Rightarrow>
               disposeFaceMatcher api
                 (cleanupCanvas (s\<lparr>tracksStopped := stopped, videoStream := None,
                                   srcObject := None\<rparr>))))"

subsection \<open>Rendering and the frame loop\<close>

definition isKnown :: "configuration \<Rightarrow> match \<Rightarrow> bool" where
  "isKnown cfg m = (case distance m of None \<Rightarrow> False | Some d \<Rightarrow> d < distanceThreshold cfg)"

definition isSmiling :: "configuration \<Rightarrow> detection \<Rightarrow> bool" where
  "isSmiling cfg d =
     (case expressions d of
        None \<Rightarrow> False
      | Some e \<Rightarrow> (case e ''happy'' of
                    None \<Rightarrow> False
                  | Some h \<Rightarrow> h > smileDetectionThreshold cfg))"

definition labelOf :: "configuration \<Rightarrow> match \<Rightarrow> detection \<Rightarrow> string" where
  "labelOf cfg m d =
     (if isKnown cfg m
      then (if isSmiling cfg d then ''Known Smiling'' else ''Known Not Smiling'')
      else (if isSmiling cfg d then ''Unknown Smiling'' else ''Unknown Not Smiling''))"

text \<open>
  The body of \<^verbatim>\<open>detections.forEach\<close>. \<^verbatim>\<open>this.faceMatcher.findBestMatch\<close> on a missing matcher
  is a \<^verbatim>\<open>TypeError\<close>, which ends the loop, as does an error of the library call.
\<close>

fun drawEach :: "faceapi \<Rightarrow> detection list \<Rightarrow> FaceRecognition \<Rightarrow> error option \<times> FaceRecognition" where
  "drawEach api [] s = (None, s)"
| "drawEach api (d # ds) s =
     (case faceMatcher s of
        None \<Rightarrow> (Some (TypeError ''findBestMatch''), s)
      | Some m \<Rightarrow>
          (case findBestMatch api m (descriptor d) of
             Inl e \<Rightarrow> (Some e, s)
           | Inr best \<Rightarrow>
               drawEach api ds (s\<lparr>painted := painted s @ [(box d, labelOf (config s) best d)]\<rparr>)))"

text \<open>\<^verbatim>\<open>this.canvas.getContext\<close> on a missing canvas is a \<^verbatim>\<open>TypeError\<close>; \<^verbatim>\<open>clearRect\<close> wipes the canvas.\<close>

definition updateCanvas ::
  "faceapi \<Rightarrow> detection list \<Rightarrow> FaceRecognition \<Rightarrow> error option \<times> FaceRecognition"
where
  "updateCanvas api detections s =
     (case canvas s of
        None \<Rightarrow> (Some (TypeError ''getContext''), s)
      | Some c \<Rightarrow> drawEach api detections (s\<lparr>painted := []\<rparr>))"

text \<open>
  What the library gives for one frame: \<^verbatim>\<open>detectAllFaces\<close> (with landmarks, descriptors
  and expressions) throws, \<^verbatim>\<open>resizeResults\<close> throws, or the resized detections.
\<close>

datatype frame = DetectionFails string | ResizeFails string | Resized "detection list"

text \<open>
  One run of \<^verbatim>\<open>processVideoFrames\<close>. The method has no \<^verbatim>\<open>try\<close>: an error leaves it before
  \<^verbatim>\<open>requestAnimationFrame\<close> is reached. Its first line returns when \<^verbatim>\<open>this.videoElement\<close>
  is missing, which the constructor excludes.
\<close>

definition processVideoFrames ::
  "faceapi \<Rightarrow> frame \<Rightarrow> FaceRecognition \<Rightarrow> error option \<times> FaceRecognition"
where
  "processVideoFrames api fr s =
     (case fr of
        DetectionFails e \<Rightarrow> (Some (Thrown e), s)
      | ResizeFails e \<Rightarrow> (Some (Thrown e), s)
      | Resized detections \<Rightarrow>
          (case updateCanvas api detections s of
             (Some e, s1) \<Rightarrow> (Some e, s1)
           | (None, s1) \<Rightarrow> (None, s1\<lparr>animationFrames := Suc (animationFrames s1)\<rparr>)))"

text \<open>
  \<^verbatim>\<open>startProcessing\<close> adds a listener for \<^verbatim>\<open>play\<close>. \<^verbatim>\<open>stopProcessing\<close> calls
  \<^verbatim>\<open>removeEventListener\<close> with a function created on the spot, which is no listener that
  was ever added, so no listener goes away; then it calls \<^verbatim>\<open>stopWebcam\<close>.
\<close>

definition startProcessing :: "FaceRecognition \<Rightarrow> FaceRecognition" where
  "startProcessing s = s\<lparr>playListeners := Suc (playListeners s)\<rparr>"

definition stopProcessing ::
  "faceapi \<Rightarrow> (nat \<Rightarrow> bool) \<Rightarrow> FaceRecognition \<Rightarrow> error option \<times> FaceRecognition"
where
  "stopProcessing api throws s = stopWebcam api throws s"

text \<open>The listener that \<^verbatim>\<open>startProcessing\<close> adds, run once.\<close>

definition onPlay ::
  "faceapi \<Rightarrow> (string \<Rightarrow> reference) \<Rightarrow> FaceRecognition \<Rightarrow> error option \<times> FaceRecognition"
where
  "onPlay api refs s =
     (case setupFaceMatcher api refs (setupCanvas s) of
        (Some e, s1) \<Rightarrow> (Some e, s1)
      | (None, s1) \<Rightarrow> (None, s1\<lparr>animationFrames := Suc (animationFrames s1)\<rparr>))"

text \<open>
  The events that drive an instance: a call of \<^verbatim>\<open>setupWebcam\<close> and one of
  \<^verbatim>\<open>startProcessing\<close> (the two steps of \<^verbatim>\<open>initialize\<close> after the models are loaded),
  the \<^verbatim>\<open>play\<close> event of the video element (every
  listener runs), a call of \<^verbatim>\<open>stopProcessing\<close>, and the browser running one pending
  animation-frame callback. An error that leaves a listener or a callback is an
  unhandled rejection: the page goes on with the state reached.
\<close>

datatype event =
    Webcam "error + nat list"
  | Start
  | Play "string \<Rightarrow> reference"
  | Stop "nat \<Rightarrow> bool"
  | AnimationFrame frame

fun step :: "faceapi \<Rightarrow> event \<Rightarrow> FaceRecognition \<Rightarrow> FaceRecognition" where
  "step api (Webcam camera) s = snd (setupWebcam camera s)"
| "step api Start s = startProcessing s"
| "step api (Play refs) s = ((\<lambda>s'. snd (onPlay api refs s')) ^^ playListeners s) s"
| "step api (Stop throws) s = snd (stopProcessing api throws s)"
| "step api (AnimationFrame fr) s =
     (if animationFrames s = 0 then s
      else snd (processVideoFrames api fr (s\<lparr>animationFrames := animationFrames s - 1\<rparr>)))"

fun run :: "faceapi \<Rightarrow> event list \<Rightarrow> FaceRecognition \<Rightarrow> FaceRecognition" where
  "run api [] s = s"
| "run api (e # es) s = run api es (step api e s)"

subsection \<open>The configuration of the page and sample states\<close>

text \<open>The object \<^verbatim>\<open>CONFIG\<close> of \<^verbatim>\<open>initializeFaceRecognition\<close>, for the labels the server listed.\<close>

definition CONFIG :: "string list \<Rightarrow> configuration" where
  "CONFIG ls =
     \<lparr>modelUri = ''/static/models'', videoElementId = ''video'', labels = ls,
      minConfidenceThreshold = 0.6, distanceThreshold = 0.5, smileDetectionThreshold = 0.5\<rparr>"

text \<open>The video element of the page \<^verbatim>\<open>face.js\<close> is 600 by 450.\<close>

definition page :: "string list \<Rightarrow> FaceRecognition" where
  "page ls = constructor (CONFIG ls) (600, 450)"

text \<open>An instance that holds canvas 10 while its pool is full.\<close>

definition fullPool :: FaceRecognition where
  "fullPool = (page [])\<lparr>canvas := Some 10, canvasPool := [0, 1, 2, 3, 4, 5, 6, 7, 8, 9],
                        documentBody := [0, 1, 2, 3, 4, 5, 6, 7, 8, 9, 10], canvasesCreated := 11\<rparr>"

text \<open>
  A stand-in for the library's lookup in a non-empty gallery, for the sample runs: the
  first label, at the distance between the first coordinates.
\<close>

definition nearestFirst :: "gallery \<Rightarrow> descriptor \<Rightarrow> match" where
  "nearestFirst g probe =
     \<lparr>label = fst (hd g), distance = Some \<bar>hd probe - hd (hd (snd (hd g)))\<bar>\<rparr>"

text \<open>
  The reference images of the spec's Scenario A: the image of alice shows one face, the
  fetch for any other label fails.
\<close>

definition aliceOnly :: "string \<Rightarrow> reference" where
  "aliceOnly l = (if l = ''alice'' then Faces [[0]] else Fails ''404'')"

text \<open>
  An instance in its frame loop: camera with tracks 1 and 2, canvas 0, the gallery and
  matcher of Scenario A, one animation frame pending.
\<close>

definition running :: FaceRecognition where
  "running = (page [''alice'', ''bob''])
     \<lparr>canvas := Some 0, displaySize := Some (600, 450),
      labeledDescriptors := [(''alice'', [[0]])],
      faceMatcher := Some (FaceMatcher [(''alice'', [[0]])]),
      videoStream := Some [1, 2], srcObject := Some [1, 2],
      documentBody := [0], canvasesCreated := 1, playListeners := 1, animationFrames := 1,
      console := [''Error processing image /static/labels/bob.jpg: 404''],
      fetched := [''/static/labels/alice.jpg'', ''/static/labels/bob.jpg'']\<rparr>"

text \<open>Three faces in a frame: a happy one near alice, a sullen one far off, one without expressions.\<close>

definition threeFaces :: "detection list" where
  "threeFaces =
     [\<lparr>box = (10, 10, 50, 50), descriptor = [0.3], expressions = Some [''happy'' \<mapsto> 0.9]\<rparr>,
      \<lparr>box = (80, 10, 50, 50), descriptor = [0.6], expressions = Some [''happy'' \<mapsto> 0.1]\<rparr>,
      \<lparr>box = (150, 10, 50, 50), descriptor = [0.2], expressions = None\<rparr>]"

text \<open>
  Event sequences on the page: the start of Scenario A up to the first pending frame;
  the same followed by a stop, the frame that was pending, and a second \<^verbatim>\<open>play\<close> event;
  and a start for which every reference image fails.
\<close>

definition firstLoop :: "event list" where
  "firstLoop = [Webcam (Inr [1, 2]), Start, Play aliceOnly]"

definition restarted :: "event list" where
  "restarted = firstLoop @ [Stop (\<lambda>t. False), AnimationFrame (Resized threeFaces), Play aliceOnly]"

definition nobody :: "event list" where
  "nobody = [Webcam (Inr [1, 2]), Start, Play (\<lambda>l. Fails ''404'')]"

text \<open>The state \<open>running\<close> once its camera has been released.\<close>

definition streamless :: FaceRecognition where
  "streamless = running\<lparr>videoStream := None, srcObject := None, tracksStopped := [1, 2]\<rparr>"

section \<open>Properties\<close>

subsection \<open>Model loading\<close>

lemma loadModels_cached:
  "modelLoader r = Some p \<Longrightarrow> loadModels fetchNet u r = (p, r)"
  by (simp add: loadModels_def)

lemma loadAll_cached:
  "modelLoader r = Some p \<Longrightarrow> loadAll fetchNet us r = (replicate (length us) p, r)"
  by (induction us) (simp_all add: loadModels_cached)

lemma loadModels_first:
  "loadModels fetchNet u registry0 =
     (0, \<lparr>modelLoader = Some 0,
          promises = [aggregate (map (\<lambda>n. fetchNet n u) nets)],
          loadCalls = map (\<lambda>n. (n, u)) nets,
          errorLog = (case aggregate (map (\<lambda>n. fetchNet n u) nets) of
                        RejectedWith errors \<Rightarrow> [errors] | ResolvedTrue \<Rightarrow> [])\<rparr>)"
  by (simp add: loadModels_def registry0_def Let_def split: settled.splits)

lemma loadAll_first:
  "loadAll fetchNet (u # us) registry0 =
     (replicate (Suc (length us)) 0, snd (loadModels fetchNet u registry0))"
  by (simp add: loadModels_first loadAll_cached)

lemma loadAll_first_result:
  "loadAll fetchNet (u # us) registry0 =
     (replicate (Suc (length us)) 0,
      \<lparr>modelLoader = Some 0,
       promises = [aggregate (map (\<lambda>n. fetchNet n u) nets)],
       loadCalls = map (\<lambda>n. (n, u)) nets,
       errorLog = (case aggregate (map (\<lambda>n. fetchNet n u) nets) of
                     RejectedWith errors \<Rightarrow> [errors] | ResolvedTrue \<Rightarrow> [])\<rparr>)"
  by (simp only: loadAll_first loadModels_first snd_conv)

lemma aggregate_nets:
  "aggregate (map (\<lambda>k. fetchNet k u) nets) =
     (if \<forall>k \<in> set nets. fetchNet k u = None then ResolvedTrue
      else RejectedWith [the (fetchNet k u). k \<leftarrow> nets, fetchNet k u \<noteq> None])"
  by (auto simp: aggregate_def nets_def)

text \<open>
  Claim C5. When the model-loading operation is called \<open>N \<ge> 1\<close> times with the same
  locator, starting from a fresh page, the four artifact loads are started exactly once;
  every caller is handed the same promise and so observes the same outcome; that outcome
  is \<^verbatim>\<open>true\<close> only if all four loads fulfil, and otherwise a rejection with the list of
  the reasons of all the loads that failed.
\<close>

theorem loadModels_same_locator_once:
  assumes "1 \<le> N" and "loadAll fetchNet (replicate N uri) registry0 = (ps, r)"
  shows "loadCalls r = [(SsdMobilenetv1, uri), (FaceRecognitionNet, uri),
                        (FaceLandmark68Net, uri), (FaceExpressionNet, uri)]
       \<and> ps = replicate N 0
       \<and> length (promises r) = 1
       \<and> map (await r) ps = replicate N
            (if \<forall>k \<in> set nets. fetchNet k uri = None then ResolvedTrue
             else RejectedWith [the (fetchNet k uri). k \<leftarrow> nets, fetchNet k uri \<noteq> None])"
proof -
  from assms(1) obtain n where N: "N = Suc n"
    by (cases N) simp_all
  have "loadAll fetchNet (uri # replicate n uri) registry0 = (ps, r)"
    using assms(2) by (simp add: N)
  then have ps: "ps = replicate (Suc n) 0"
    and r: "r = \<lparr>modelLoader = Some 0,
                 promises = [aggregate (map (\<lambda>k. fetchNet k uri) nets)],
                 loadCalls = map (\<lambda>k. (k, uri)) nets,
                 errorLog = (case aggregate (map (\<lambda>k. fetchNet k uri) nets) of
                               RejectedWith errors \<Rightarrow> [errors] | ResolvedTrue \<Rightarrow> [])\<rparr>"
    unfolding loadAll_first_result by simp_all
  have calls: "loadCalls r = [(SsdMobilenetv1, uri), (FaceRecognitionNet, uri),
                              (FaceLandmark68Net, uri), (FaceExpressionNet, uri)]"
    by (simp add: r nets_def)
  have one: "length (promises r) = 1"
    by (simp add: r)
  have "await r 0 = aggregate (map (\<lambda>k. fetchNet k uri) nets)"
    by (simp add: r await_def)
  then have seen: "map (await r) ps = replicate N
            (if \<forall>k \<in> set nets. fetchNet k uri = None then ResolvedTrue
             else RejectedWith [the (fetchNet k uri). k \<leftarrow> nets, fetchNet k uri \<noteq> None])"
    by (simp only: ps N map_replicate aggregate_nets)
  from calls ps one seen show ?thesis
    by (simp only: N simp_thms)
qed

theorem loadModels_same_locator_once_witness:
  "loadAll (\<lambda>k u. if k = FaceLandmark68Net then Some ''404'' else None)
     (replicate 3 ''/static/models'') registry0
   = ([0, 0, 0],
      \<lparr>modelLoader = Some 0, promises = [RejectedWith [''404'']],
       loadCalls = [(SsdMobilenetv1, ''/static/models''), (FaceRecognitionNet, ''/static/models''),
                    (FaceLandmark68Net, ''/static/models''), (FaceExpressionNet, ''/static/models'')],
       errorLog = [[''404'']]\<rparr>)
   \<and> map (await \<lparr>modelLoader = Some 0, promises = [RejectedWith [''404'']],
       loadCalls = [(SsdMobilenetv1, ''/static/models''), (FaceRecognitionNet, ''/static/models''),
                    (FaceLandmark68Net, ''/static/models''), (FaceExpressionNet, ''/static/models'')],
       errorLog = [[''404'']]\<rparr>) [0, 0, 0]
     = [RejectedWith [''404''], RejectedWith [''404''], RejectedWith [''404'']]"
proof -
  have n: "1 \<le> (3::nat)"
    by simp
  have run: "loadAll (\<lambda>k u. if k = FaceLandmark68Net then Some ''404'' else None)
     (replicate 3 ''/static/models'') registry0
   = ([0, 0, 0],
      \<lparr>modelLoader = Some 0, promises = [RejectedWith [''404'']],
       loadCalls = [(SsdMobilenetv1, ''/static/models''), (FaceRecognitionNet, ''/static/models''),
                    (FaceLandmark68Net, ''/static/models''), (FaceExpressionNet, ''/static/models'')],
       errorLog = [[''404'']]\<rparr>)"
    by (simp add: numeral_3_eq_3 loadModels_def registry0_def nets_def aggregate_def)
  have "map (await \<lparr>modelLoader = Some 0, promises = [RejectedWith [''404'']],
       loadCalls = [(SsdMobilenetv1, ''/static/models''), (FaceRecognitionNet, ''/static/models''),
                    (FaceLandmark68Net, ''/static/models''), (FaceExpressionNet, ''/static/models'')],
       errorLog = [[''404'']]\<rparr>) [0, 0, 0]
     = [RejectedWith [''404''], RejectedWith [''404''], RejectedWith [''404'']]"
    using loadModels_same_locator_once [OF n run]
    by (simp add: nets_def numeral_3_eq_3)
  with run show ?thesis
    by (rule conjI)
qed

text \<open>
  Claim C10. The cache does not look at the locator. Whatever the registry, a second call
  returns the promise of the call before it and changes nothing, even with another
  locator. So on a fresh page any run of calls starts the four loads once, with the
  locator of the first call, and every caller, whatever its locator, is handed the first
  promise and observes the outcome of that first load, a rejection included.
\<close>

theorem loadModels_locator_ignored:
  "loadModels fetchNet u2 (snd (loadModels fetchNet u1 r0))
     = (fst (loadModels fetchNet u1 r0), snd (loadModels fetchNet u1 r0))
   \<and> (loadAll fetchNet (u1 # us) registry0 = (ps, r) \<longrightarrow>
       loadCalls r = [(SsdMobilenetv1, u1), (FaceRecognitionNet, u1),
                      (FaceLandmark68Net, u1), (FaceExpressionNet, u1)]
     \<and> ps = replicate (Suc (length us)) 0
     \<and> map (await r) ps = replicate (Suc (length us))
          (if \<forall>k \<in> set nets. fetchNet k u1 = None then ResolvedTrue
           else RejectedWith [the (fetchNet k u1). k \<leftarrow> nets, fetchNet k u1 \<noteq> None]))"
proof (intro conjI impI)
  show "loadModels fetchNet u2 (snd (loadModels fetchNet u1 r0))
     = (fst (loadModels fetchNet u1 r0), snd (loadModels fetchNet u1 r0))"
    by (cases "modelLoader r0") (simp_all add: loadModels_def Let_def)
next
  assume a: "loadAll fetchNet (u1 # us) registry0 = (ps, r)"
  then have ps: "ps = replicate (Suc (length us)) 0"
    and r: "r = \<lparr>modelLoader = Some 0,
                 promises = [aggregate (map (\<lambda>k. fetchNet k u1) nets)],
                 loadCalls = map (\<lambda>k. (k, u1)) nets,
                 errorLog = (case aggregate (map (\<lambda>k. fetchNet k u1) nets) of
                               RejectedWith errors \<Rightarrow> [errors] | ResolvedTrue \<Rightarrow> [])\<rparr>"
    unfolding loadAll_first_result by simp_all
  show "ps = replicate (Suc (length us)) 0"
    by (fact ps)
  show "loadCalls r = [(SsdMobilenetv1, u1), (FaceRecognitionNet, u1),
                      (FaceLandmark68Net, u1), (FaceExpressionNet, u1)]"
    by (simp add: r nets_def)
  have "await r 0 = aggregate (map (\<lambda>k. fetchNet k u1) nets)"
    by (simp add: r await_def)
  then show "map (await r) ps = replicate (Suc (length us))
          (if \<forall>k \<in> set nets. fetchNet k u1 = None then ResolvedTrue
           else RejectedWith [the (fetchNet k u1). k \<leftarrow> nets, fetchNet k u1 \<noteq> None])"
    by (simp only: ps map_replicate aggregate_nets)
qed

theorem loadModels_locator_ignored_witness:
  "loadModels (\<lambda>k u. if u = ''/a'' then Some ''offline'' else None) ''/b''
     (snd (loadModels (\<lambda>k u. if u = ''/a'' then Some ''offline'' else None) ''/a'' registry0))
   = (0, \<lparr>modelLoader = Some 0,
          promises = [RejectedWith [''offline'', ''offline'', ''offline'', ''offline'']],
          loadCalls = [(SsdMobilenetv1, ''/a''), (FaceRecognitionNet, ''/a''),
                       (FaceLandmark68Net, ''/a''), (FaceExpressionNet, ''/a'')],
          errorLog = [[''offline'', ''offline'', ''offline'', ''offline'']]\<rparr>)"
proof -
  have first: "loadModels (\<lambda>k u. if u = ''/a'' then Some ''offline'' else None) ''/a'' registry0
   = (0, \<lparr>modelLoader = Some 0,
          promises = [RejectedWith [''offline'', ''offline'', ''offline'', ''offline'']],
          loadCalls = [(SsdMobilenetv1, ''/a''), (FaceRecognitionNet, ''/a''),
                       (FaceLandmark68Net, ''/a''), (FaceExpressionNet, ''/a'')],
          errorLog = [[''offline'', ''offline'', ''offline'', ''offline'']]\<rparr>)"
    by (simp add: loadModels_def registry0_def nets_def aggregate_def)
  show ?thesis
    using loadModels_locator_ignored
            [of "\<lambda>k u. if u = ''/a'' then Some ''offline'' else None" "''/b''" "''/a''" registry0]
    by (simp add: first)
qed

subsection \<open>The canvas pool\<close>

lemma takeCanvas_pool: "length (canvasPool (takeCanvas s)) \<le> length (canvasPool s)"
  by (simp add: takeCanvas_def Let_def split: prod.splits)

lemma poolStep_bounded:
  "length (canvasPool s) \<le> maxCanvasPoolSize \<Longrightarrow>
   length (canvasPool (poolStep op s)) \<le> maxCanvasPoolSize"
proof (cases op)
  case SetupCanvas
  assume "length (canvasPool s) \<le> maxCanvasPoolSize"
  with takeCanvas_pool [of s] show ?thesis
    by (simp add: SetupCanvas setupCanvas_def)
next
  case CreateCanvas
  assume "length (canvasPool s) \<le> maxCanvasPoolSize"
  with takeCanvas_pool [of s] show ?thesis
    by (simp add: CreateCanvas createCanvas_def)
next
  case CleanupCanvas
  assume "length (canvasPool s) \<le> maxCanvasPoolSize"
  then show ?thesis
    by (simp add: CleanupCanvas cleanupCanvas_def split: option.splits)
qed

lemma poolRun_bounded:
  "length (canvasPool s) \<le> maxCanvasPoolSize \<Longrightarrow>
   length (canvasPool (poolRun ops s)) \<le> maxCanvasPoolSize"
  by (induction ops arbitrary: s) (simp_all add: poolStep_bounded)

text \<open>
  Claim C8. After any finite sequence of acquire operations (\<^verbatim>\<open>setupCanvas\<close>,
  \<^verbatim>\<open>createCanvas\<close>: pop or create) and release operations (\<^verbatim>\<open>cleanupCanvas\<close>: push or
  destroy) the pool holds at most 10 canvases, from a new instance and from any state
  whose pool holds at most 10. A release of the canvas in use pushes it when the pool
  holds fewer than 10, and otherwise removes it from the page and leaves the pool as it
  was; either way the instance no longer holds it.
\<close>

theorem canvasPool_at_most_ten:
  "length (canvasPool (poolRun ops (constructor cfg video))) \<le> 10
   \<and> (length (canvasPool s) \<le> 10 \<longrightarrow> length (canvasPool (poolRun ops s)) \<le> 10)
   \<and> (canvas s = Some c \<longrightarrow>
        (length (canvasPool s) < 10 \<longrightarrow>
           canvasPool (cleanupCanvas s) = canvasPool s @ [c]
         \<and> canvasesRemoved (cleanupCanvas s) = canvasesRemoved s)
      \<and> (\<not> length (canvasPool s) < 10 \<longrightarrow>
           canvasPool (cleanupCanvas s) = canvasPool s
         \<and> canvasesRemoved (cleanupCanvas s) = canvasesRemoved s @ [c]
         \<and> c \<notin> set (documentBody (cleanupCanvas s)))
      \<and> canvas (cleanupCanvas s) = None)"
proof (intro conjI impI)
  have "length (canvasPool (constructor cfg video)) \<le> maxCanvasPoolSize"
    by (simp add: constructor_def)
  then show "length (canvasPool (poolRun ops (constructor cfg video))) \<le> 10"
    using poolRun_bounded [of "constructor cfg video" ops] by (simp add: maxCanvasPoolSize_def)
next
  assume "length (canvasPool s) \<le> 10"
  then show "length (canvasPool (poolRun ops s)) \<le> 10"
    using poolRun_bounded [of s ops] by (simp add: maxCanvasPoolSize_def)
qed (simp_all add: cleanupCanvas_def maxCanvasPoolSize_def)

theorem canvasPool_at_most_ten_witness:
  "length (canvasPool fullPool) \<le> 10
   \<and> canvas fullPool = Some 10
   \<and> \<not> length (canvasPool fullPool) < 10
   \<and> length (canvasPool (poolRun [CleanupCanvas, SetupCanvas, CleanupCanvas] fullPool)) \<le> 10
   \<and> canvasPool (cleanupCanvas fullPool) = [0, 1, 2, 3, 4, 5, 6, 7, 8, 9]
   \<and> canvasesRemoved (cleanupCanvas fullPool) = [10]
   \<and> canvasPool (cleanupCanvas (setupCanvas (cleanupCanvas fullPool))) = [0, 1, 2, 3, 4, 5, 6, 7, 8, 9]"
  using canvasPool_at_most_ten
          [of "[CleanupCanvas, SetupCanvas, CleanupCanvas]" "CONFIG []" "(600, 450)" fullPool 10]
  by (simp add: fullPool_def page_def constructor_def cleanupCanvas_def setupCanvas_def
        takeCanvas_def maxCanvasPoolSize_def)

subsection \<open>Labels on the canvas\<close>

lemma drawEach_painted:
  "drawEach api ds s = (None, s') \<Longrightarrow>
     painted s' = painted s @
        map (\<lambda>d. (box d, labelOf (config s)
                     (projr (findBestMatch api (the (faceMatcher s)) (descriptor d))) d)) ds
   \<and> (\<forall>d \<in> set ds. faceMatcher s \<noteq> None
          \<and> \<not> isl (findBestMatch api (the (faceMatcher s)) (descriptor d)))"
proof (induction ds arbitrary: s)
  case Nil
  then show ?case by simp
next
  case (Cons d ds)
  from Cons.prems obtain m best where m: "faceMatcher s = Some m"
    and best: "findBestMatch api m (descriptor d) = Inr best"
    and rest: "drawEach api ds (s\<lparr>painted := painted s @ [(box d, labelOf (config s) best d)]\<rparr>)
                 = (None, s')"
    by (auto split: option.splits sum.splits)
  from Cons.IH [OF rest] show ?case
    by (simp add: m best)
qed

lemma labelOf_cases:
  "labelOf cfg best d =
     (if (\<exists>x. distance best = Some x \<and> x < distanceThreshold cfg)
      then (if (\<exists>e h. expressions d = Some e \<and> e ''happy'' = Some h
                    \<and> smileDetectionThreshold cfg < h)
            then ''Known Smiling'' else ''Known Not Smiling'')
      else (if (\<exists>e h. expressions d = Some e \<and> e ''happy'' = Some h
                    \<and> smileDetectionThreshold cfg < h)
            then ''Unknown Smiling'' else ''Unknown Not Smiling''))"
  by (auto simp: labelOf_def isKnown_def isSmiling_def split: option.splits)

lemma drawEach_all:
  "\<forall>d \<in> set ds. faceMatcher s = Some m \<and> findBestMatch api m (descriptor d) = Inr (bestOf d) \<Longrightarrow>
   drawEach api ds s
     = (None, s\<lparr>painted := painted s @ map (\<lambda>d. (box d, labelOf (config s) (bestOf d) d)) ds\<rparr>)"
proof (induction ds arbitrary: s)
  case Nil
  show ?case by simp
next
  case (Cons d ds)
  from Cons.prems have m: "faceMatcher s = Some m"
    and b: "findBestMatch api m (descriptor d) = Inr (bestOf d)"
    by simp_all
  let ?s1 = "s\<lparr>painted := painted s @ [(box d, labelOf (config s) (bestOf d) d)]\<rparr>"
  from Cons.prems have "\<forall>d \<in> set ds. faceMatcher ?s1 = Some m
       \<and> findBestMatch api m (descriptor d) = Inr (bestOf d)"
    by simp
  from Cons.IH [OF this] show ?case
    by (simp add: m b)
qed

lemma drawEach_fails:
  assumes "\<forall>p \<in> set pre. faceMatcher s = Some m \<and> findBestMatch api m (descriptor p) = Inr (bestOf p)"
    and "faceMatcher s = Some m" and "findBestMatch api m (descriptor d) = Inl e"
  shows "drawEach api (pre @ d # post) s
     = (Some e, s\<lparr>painted := painted s @ map (\<lambda>d. (box d, labelOf (config s) (bestOf d) d)) pre\<rparr>)"
  using assms
proof (induction pre arbitrary: s)
  case Nil
  then show ?case by simp
next
  case (Cons p pre)
  let ?s1 = "s\<lparr>painted := painted s @ [(box p, labelOf (config s) (bestOf p) p)]\<rparr>"
  from Cons.prems have b: "findBestMatch api m (descriptor p) = Inr (bestOf p)"
    by simp
  have "drawEach api (pre @ d # post) ?s1
     = (Some e, ?s1\<lparr>painted := painted ?s1 @ map (\<lambda>d. (box d, labelOf (config ?s1) (bestOf d) d)) pre\<rparr>)"
    using Cons.prems by (intro Cons.IH) simp_all
  then show ?case
    using Cons.prems(2) by (simp add: b)
qed

text \<open>
  Claim C1. Whenever the canvas and the matcher are there and the library returns a match
  for every detection of the frame, \<^verbatim>\<open>updateCanvas\<close> returns without an error and
  draws one label per detection, in order, changing nothing else. The label is fixed by
  two independent tests. The detection is known exactly when the distance of the
  matcher's best match is strictly below \<open>distanceThreshold\<close>. It is smiling exactly
  when its expression scores are present and the score for \<open>happy\<close> is strictly above
  \<open>smileDetectionThreshold\<close>; with no expression scores it is not smiling, and that
  raises no error. The label is \<open>Known Smiling\<close>, \<open>Known Not Smiling\<close>,
  \<open>Unknown Smiling\<close> or \<open>Unknown Not Smiling\<close> accordingly.
\<close>

theorem updateCanvas_label:
  assumes "canvas s = Some c" and "faceMatcher s = Some m"
    and "\<forall>d \<in> set ds. findBestMatch api m (descriptor d) = Inr (bestOf d)"
  shows "\<exists>s'. updateCanvas api ds s = (None, s')
       \<and> s' = s\<lparr>painted := map (\<lambda>d. (box d,
                   if (\<exists>x. distance (bestOf d) = Some x \<and> x < distanceThreshold (config s))
                   then (if (\<exists>e h. expressions d = Some e \<and> e ''happy'' = Some h
                                 \<and> smileDetectionThreshold (config s) < h)
                         then ''Known Smiling'' else ''Known Not Smiling'')
                   else (if (\<exists>e h. expressions d = Some e \<and> e ''happy'' = Some h
                                 \<and> smileDetectionThreshold (config s) < h)
                         then ''Unknown Smiling'' else ''Unknown Not Smiling''))) ds\<rparr>
       \<and> length (painted s') = length ds
       \<and> (\<forall>i < length ds.
             fst (painted s' ! i) = box (ds ! i)
           \<and> (snd (painted s' ! i) = ''Known Smiling'' \<or> snd (painted s' ! i) = ''Known Not Smiling''
                \<longleftrightarrow> (\<exists>x. distance (bestOf (ds ! i)) = Some x \<and> x < distanceThreshold (config s)))
           \<and> (snd (painted s' ! i) = ''Unknown Smiling'' \<or> snd (painted s' ! i) = ''Unknown Not Smiling''
                \<longleftrightarrow> \<not> (\<exists>x. distance (bestOf (ds ! i)) = Some x \<and> x < distanceThreshold (config s)))
           \<and> (snd (painted s' ! i) = ''Known Smiling'' \<or> snd (painted s' ! i) = ''Unknown Smiling''
                \<longleftrightarrow> (\<exists>e h. expressions (ds ! i) = Some e \<and> e ''happy'' = Some h
                           \<and> smileDetectionThreshold (config s) < h))
           \<and> (snd (painted s' ! i) = ''Known Not Smiling'' \<or> snd (painted s' ! i) = ''Unknown Not Smiling''
                \<longleftrightarrow> \<not> (\<exists>e h. expressions (ds ! i) = Some e \<and> e ''happy'' = Some h
                           \<and> smileDetectionThreshold (config s) < h))
           \<and> (expressions (ds ! i) = None \<longrightarrow>
                snd (painted s' ! i) = ''Known Not Smiling''
              \<or> snd (painted s' ! i) = ''Unknown Not Smiling''))"
proof -
  let ?L = "\<lambda>d. (box d, labelOf (config s) (bestOf d) d)"
  have "\<forall>d \<in> set ds. faceMatcher (s\<lparr>painted := []\<rparr>) = Some m
          \<and> findBestMatch api m (descriptor d) = Inr (bestOf d)"
    using assms(2,3) by simp
  from drawEach_all [OF this]
  have run: "updateCanvas api ds s = (None, s\<lparr>painted := map ?L ds\<rparr>)"
    using assms(1) by (simp add: updateCanvas_def)
  have each: "\<forall>i < length ds.
             fst (map ?L ds ! i) = box (ds ! i)
           \<and> (snd (map ?L ds ! i) = ''Known Smiling'' \<or> snd (map ?L ds ! i) = ''Known Not Smiling''
                \<longleftrightarrow> (\<exists>x. distance (bestOf (ds ! i)) = Some x \<and> x < distanceThreshold (config s)))
           \<and> (snd (map ?L ds ! i) = ''Unknown Smiling'' \<or> snd (map ?L ds ! i) = ''Unknown Not Smiling''
                \<longleftrightarrow> \<not> (\<exists>x. distance (bestOf (ds ! i)) = Some x \<and> x < distanceThreshold (config s)))
           \<and> (snd (map ?L ds ! i) = ''Known Smiling'' \<or> snd (map ?L ds ! i) = ''Unknown Smiling''
                \<longleftrightarrow> (\<exists>e h. expressions (ds ! i) = Some e \<and> e ''happy'' = Some h
                           \<and> smileDetectionThreshold (config s) < h))
           \<and> (snd (map ?L ds ! i) = ''Known Not Smiling'' \<or> snd (map ?L ds ! i) = ''Unknown Not Smiling''
                \<longleftrightarrow> \<not> (\<exists>e h. expressions (ds ! i) = Some e \<and> e ''happy'' = Some h
                           \<and> smileDetectionThreshold (config s) < h))
           \<and> (expressions (ds ! i) = None \<longrightarrow>
                snd (map ?L ds ! i) = ''Known Not Smiling''
              \<or> snd (map ?L ds ! i) = ''Unknown Not Smiling'')"
  proof (intro allI impI)
    fix i assume "i < length ds"
    then have nth: "map ?L ds ! i = ?L (ds ! i)" by simp
    show "fst (map ?L ds ! i) = box (ds ! i)
           \<and> (snd (map ?L ds ! i) = ''Known Smiling'' \<or> snd (map ?L ds ! i) = ''Known Not Smiling''
                \<longleftrightarrow> (\<exists>x. distance (bestOf (ds ! i)) = Some x \<and> x < distanceThreshold (config s)))
           \<and> (snd (map ?L ds ! i) = ''Unknown Smiling'' \<or> snd (map ?L ds ! i) = ''Unknown Not Smiling''
                \<longleftrightarrow> \<not> (\<exists>x. distance (bestOf (ds ! i)) = Some x \<and> x < distanceThreshold (config s)))
           \<and> (snd (map ?L ds ! i) = ''Known Smiling'' \<or> snd (map ?L ds ! i) = ''Unknown Smiling''
                \<longleftrightarrow> (\<exists>e h. expressions (ds ! i) = Some e \<and> e ''happy'' = Some h
                           \<and> smileDetectionThreshold (config s) < h))
           \<and> (snd (map ?L ds ! i) = ''Known Not Smiling'' \<or> snd (map ?L ds ! i) = ''Unknown Not Smiling''
                \<longleftrightarrow> \<not> (\<exists>e h. expressions (ds ! i) = Some e \<and> e ''happy'' = Some h
                           \<and> smileDetectionThreshold (config s) < h))
           \<and> (expressions (ds ! i) = None \<longrightarrow>
                snd (map ?L ds ! i) = ''Known Not Smiling''
              \<or> snd (map ?L ds ! i) = ''Unknown Not Smiling'')"
      unfolding nth by (simp add: labelOf_cases) blast
  qed
  have same: "map ?L ds = map (\<lambda>d. (box d,
                   if (\<exists>x. distance (bestOf d) = Some x \<and> x < distanceThreshold (config s))
                   then (if (\<exists>e h. expressions d = Some e \<and> e ''happy'' = Some h
                                 \<and> smileDetectionThreshold (config s) < h)
                         then ''Known Smiling'' else ''Known Not Smiling'')
                   else (if (\<exists>e h. expressions d = Some e \<and> e ''happy'' = Some h
                                 \<and> smileDetectionThreshold (config s) < h)
                         then ''Unknown Smiling'' else ''Unknown Not Smiling''))) ds"
    by (simp only: labelOf_cases)
  show ?thesis
    apply (rule exI [of _ "s\<lparr>painted := map ?L ds\<rparr>"])
    apply (intro conjI)
       apply (rule run)
      apply (simp only: same)
     apply simp
    using each apply simp
    done
qed


theorem updateCanvas_label_witness:
  "updateCanvas (specMatcher nearestFirst) threeFaces running
     = (None, running\<lparr>painted := [((10, 10, 50, 50), ''Known Smiling''),
                                  ((80, 10, 50, 50), ''Unknown Not Smiling''),
                                  ((150, 10, 50, 50), ''Known Not Smiling'')]\<rparr>)"
proof -
  have a: "canvas running = Some 0"
    and b: "faceMatcher running = Some (FaceMatcher [(''alice'', [[0]])])"
    by (simp_all add: running_def)
  have c: "\<forall>d \<in> set threeFaces.
             findBestMatch (specMatcher nearestFirst) (FaceMatcher [(''alice'', [[0]])]) (descriptor d)
               = Inr (nearestFirst [(''alice'', [[0]])] (descriptor d))"
    by (simp add: specMatcher_def)
  have e1: "\<exists>h::real. h * 10 = 9 \<and> 1 < h * 2"
    by (intro exI [of _ "9 / 10"]) simp
  have e2: "\<not> (\<exists>h::real. h * 10 = 1 \<and> 1 < h * 2)"
    by auto
  show ?thesis
    using updateCanvas_label [OF a b c]
    by (elim exE conjE)
       (simp add: running_def page_def constructor_def CONFIG_def threeFaces_def nearestFirst_def
          e1 e2)
qed


subsection \<open>Building the gallery\<close>

lemma buildLoop_state:
  "snd (buildLoop refs ls d s) =
     s\<lparr>fetched := fetched s @
         map imagePath (filter (\<lambda>l. map_of (labeledDescriptors s) l = None) ls),
       console := console s @
         concat (map (\<lambda>l. case refs l of
                             Fails e \<Rightarrow> [''Error processing image '' @ imagePath l @ '': '' @ e]
                           | Faces ds \<Rightarrow> [])
                     (filter (\<lambda>l. map_of (labeledDescriptors s) l = None) ls))\<rparr>"
proof (induction ls arbitrary: d s)
  case Nil
  then show ?case by simp
next
  case (Cons l ls)
  show ?case
  proof (cases "map_of (labeledDescriptors s) l = None")
    case False
    then obtain y where "map_of (labeledDescriptors s) l = Some y"
      by auto
    then show ?thesis
      by (simp add: Cons.IH)
  next
    case True
    then show ?thesis
      by (cases "refs l") (simp_all add: Cons.IH)
  qed
qed

lemma buildLoop_map:
  "map_of (fst (buildLoop refs ls d s)) l =
     (if l \<in> set ls \<and> map_of (labeledDescriptors s) l = None
         \<and> (\<exists>ds. refs l = Faces ds \<and> ds \<noteq> [])
      then (case refs l of Faces ds \<Rightarrow> Some ds | Fails e \<Rightarrow> None)
      else map_of d l)"
proof (induction ls arbitrary: d s)
  case Nil
  then show ?case by simp
next
  case (Cons k ls)
  show ?case
  proof (cases "map_of (labeledDescriptors s) k = None")
    case False
    then show ?thesis
      by (auto simp: Cons.IH)
  next
    case True
    show ?thesis
    proof (cases "refs k")
      case (Fails e)
      with True show ?thesis
        by (auto simp: Cons.IH)
    next
      case (Faces ds)
      with True show ?thesis
        by (auto simp: Cons.IH update_conv')
    qed
  qed
qed

lemma gallery_keys: "fst ` set g = {l. map_of g l \<noteq> None}"
  by (metis (no_types) dom_def dom_map_of_conv_image_fst)

lemma imagePath_inj: "imagePath l = imagePath k \<longleftrightarrow> l = k"
  by (simp add: imagePath_def)

lemma getLabeledFaceDescriptors_buildLoop:
  "getLabeledFaceDescriptors refs L s = (g, s') \<Longrightarrow>
     g = fst (buildLoop refs L [] s) \<and> s' = snd (buildLoop refs L [] s)"
  by (simp add: getLabeledFaceDescriptors_def)

text \<open>
  Claim C6, as stated, has every label of \<open>F\<close> logged. The code logs in the handler of
  the \<^verbatim>\<open>try\<close> block only: a label whose image shows no face is skipped without a line
  on the console.
\<close>

theorem gallery_no_face_not_logged:
  "getLabeledFaceDescriptors (\<lambda>l. Faces []) [''bob''] (page [''bob''])
     = ([], (page [''bob''])\<lparr>fetched := [''/static/labels/bob.jpg''], console := []\<rparr>)"
  by (simp add: getLabeledFaceDescriptors_def page_def constructor_def imagePath_def)

text \<open>
  Claim C6, amended. For every label list \<open>L\<close> given to the gallery build while the
  instance's gallery is empty, with \<open>F\<close> the labels of \<open>L\<close> whose fetch or detection
  fails or whose image shows no face: the build returns (nothing is raised), the keys of
  the returned gallery are exactly \<open>L \<setminus> F\<close>, each remaining label mapped to the
  descriptors found; every label of \<open>L\<close> is fetched once per occurrence; a label whose
  fetch or detection throws is logged and skipped, and a label whose image shows no face
  is skipped without a log entry. Nothing else of the instance changes.
\<close>

theorem gallery_keys_exact:
  assumes "labeledDescriptors s = []" and "getLabeledFaceDescriptors refs L s = (g, s')"
  shows "fst ` set g = set L - {l \<in> set L. (\<exists>e. refs l = Fails e) \<or> refs l = Faces []}
       \<and> (\<forall>l \<in> set L. \<forall>ds. refs l = Faces ds \<and> ds \<noteq> [] \<longrightarrow> map_of g l = Some ds)
       \<and> s' = s\<lparr>fetched := fetched s @ map imagePath L,
                 console := console s @
                   concat (map (\<lambda>l. case refs l of
                                       Fails e \<Rightarrow> [''Error processing image '' @ imagePath l
                                                    @ '': '' @ e]
                                     | Faces ds \<Rightarrow> []) L)\<rparr>"
proof -
  note eq = getLabeledFaceDescriptors_buildLoop [OF assms(2)]
  have m: "map_of g l = (if l \<in> set L \<and> (\<exists>ds. refs l = Faces ds \<and> ds \<noteq> [])
            then (case refs l of Faces ds \<Rightarrow> Some ds | Fails e \<Rightarrow> None) else None)" for l
    using buildLoop_map [of refs L "[]" s l] by (auto simp: eq assms(1))
  have keys: "fst ` set g = set L - {l \<in> set L. (\<exists>e. refs l = Fails e) \<or> refs l = Faces []}"
  proof -
    have "(map_of g l \<noteq> None)
            = (l \<in> set L \<and> \<not> ((\<exists>e. refs l = Fails e) \<or> refs l = Faces []))" for l
      by (cases "refs l") (auto simp: m)
    then have "{l. map_of g l \<noteq> None}
                 = set L - {l \<in> set L. (\<exists>e. refs l = Fails e) \<or> refs l = Faces []}"
      by blast
    then show ?thesis
      by (simp only: gallery_keys)
  qed
  have vals: "\<forall>l \<in> set L. \<forall>ds. refs l = Faces ds \<and> ds \<noteq> [] \<longrightarrow> map_of g l = Some ds"
    by (auto simp: m)
  have st: "s' = s\<lparr>fetched := fetched s @ map imagePath L,
                 console := console s @
                   concat (map (\<lambda>l. case refs l of
                                       Fails e \<Rightarrow> [''Error processing image '' @ imagePath l
                                                    @ '': '' @ e]
                                     | Faces ds \<Rightarrow> []) L)\<rparr>"
    using buildLoop_state [of refs L "[]" s] by (simp add: eq assms(1))
  from keys vals st show ?thesis
    by (intro conjI)
qed

theorem gallery_keys_exact_witness:
  "getLabeledFaceDescriptors aliceOnly [''alice'', ''bob''] (page [''alice'', ''bob''])
     = ([(''alice'', [[0]])],
        (page [''alice'', ''bob''])
          \<lparr>fetched := [''/static/labels/alice.jpg'', ''/static/labels/bob.jpg''],
           console := [''Error processing image /static/labels/bob.jpg: 404'']\<rparr>)
   \<and> fst ` set [(''alice'', [[0::real]])] = {''alice''}"
proof -
  have e: "labeledDescriptors (page [''alice'', ''bob'']) = []"
    by (simp add: page_def constructor_def)
  have run: "getLabeledFaceDescriptors aliceOnly [''alice'', ''bob''] (page [''alice'', ''bob''])
     = ([(''alice'', [[0]])],
        (page [''alice'', ''bob''])
          \<lparr>fetched := [''/static/labels/alice.jpg'', ''/static/labels/bob.jpg''],
           console := [''Error processing image /static/labels/bob.jpg: 404'']\<rparr>)"
    by (simp add: getLabeledFaceDescriptors_def page_def constructor_def imagePath_def
          aliceOnly_def)
  have "fst ` set [(''alice'', [[0::real]])] = {''alice''}"
    using gallery_keys_exact [OF e run] by (auto simp: aliceOnly_def)
  with run show ?thesis
    by (rule conjI)
qed

text \<open>
  Claim C7, as stated, has the gallery returned by the build contain every label that was
  already present. The build collects into a new map and skips present labels, so the
  map it returns does not contain them.
\<close>

theorem build_drops_present_label:
  "map_of (labeledDescriptors running) ''alice'' = Some [[0]]
   \<and> getLabeledFaceDescriptors aliceOnly [''alice''] running = ([], running)"
  by (simp add: getLabeledFaceDescriptors_def running_def page_def constructor_def)

text \<open>
  Claim C7, amended. For every label already present in the instance's gallery before a
  build, the build does not fetch that label's reference image (it fetches exactly the
  absent labels of its list), the map it returns holds newly fetched labels only and so
  does not contain that label, and the build leaves the instance's gallery as it was.
  \<^verbatim>\<open>setupFaceMatcher\<close> runs the build only when the gallery is empty: with such a label
  present it fetches nothing and leaves the gallery unchanged.
\<close>

theorem build_skips_present_label:
  assumes "map_of (labeledDescriptors s) l = Some ds"
    and "getLabeledFaceDescriptors refs L s = (g, s')"
  shows "fetched s' = fetched s
            @ map imagePath (filter (\<lambda>k. map_of (labeledDescriptors s) k = None) L)
       \<and> imagePath l
            \<notin> set (map imagePath (filter (\<lambda>k. map_of (labeledDescriptors s) k = None) L))
       \<and> map_of g l = None
       \<and> labeledDescriptors s' = labeledDescriptors s
       \<and> labeledDescriptors (snd (setupFaceMatcher api refs s)) = labeledDescriptors s
       \<and> fetched (snd (setupFaceMatcher api refs s)) = fetched s"
proof -
  note eq = getLabeledFaceDescriptors_buildLoop [OF assms(2)]
  have st: "s' = s\<lparr>fetched := fetched s @
         map imagePath (filter (\<lambda>l. map_of (labeledDescriptors s) l = None) L),
       console := console s @
         concat (map (\<lambda>l. case refs l of
                             Fails e \<Rightarrow> [''Error processing image '' @ imagePath l @ '': '' @ e]
                           | Faces ds \<Rightarrow> [])
                     (filter (\<lambda>l. map_of (labeledDescriptors s) l = None) L))\<rparr>"
    using buildLoop_state [of refs L "[]" s] by (simp add: eq)
  have f: "fetched s' = fetched s
            @ map imagePath (filter (\<lambda>k. map_of (labeledDescriptors s) k = None) L)"
    by (simp add: st)
  have nf: "imagePath l
            \<notin> set (map imagePath (filter (\<lambda>k. map_of (labeledDescriptors s) k = None) L))"
    using assms(1) by (auto simp: imagePath_inj)
  have g: "map_of g l = None"
    using buildLoop_map [of refs L "[]" s l] assms(1) by (simp add: eq)
  have same: "labeledDescriptors s' = labeledDescriptors s"
    by (simp add: st)
  from assms(1) have ne: "labeledDescriptors s \<noteq> []"
    by auto
  have sm: "labeledDescriptors (snd (setupFaceMatcher api refs s)) = labeledDescriptors s
       \<and> fetched (snd (setupFaceMatcher api refs s)) = fetched s"
    using ne by (auto simp: setupFaceMatcher_def split: sum.splits)
  from f nf g same sm show ?thesis
    by (intro conjI) simp_all
qed

theorem build_skips_present_label_witness:
  "getLabeledFaceDescriptors (\<lambda>l. Faces [[1]]) [''alice'', ''bob''] running
     = ([(''bob'', [[1]])],
        running\<lparr>fetched := [''/static/labels/alice.jpg'', ''/static/labels/bob.jpg'',
                            ''/static/labels/bob.jpg'']\<rparr>)
   \<and> map_of [(''bob'', [[1::real]])] ''alice'' = None"
proof -
  have present: "map_of (labeledDescriptors running) ''alice'' = Some [[0]]"
    by (simp add: running_def page_def constructor_def)
  have run: "getLabeledFaceDescriptors (\<lambda>l. Faces [[1]]) [''alice'', ''bob''] running
     = ([(''bob'', [[1]])],
        running\<lparr>fetched := [''/static/labels/alice.jpg'', ''/static/labels/bob.jpg'',
                            ''/static/labels/bob.jpg'']\<rparr>)"
    by (simp add: getLabeledFaceDescriptors_def running_def page_def constructor_def
          imagePath_def)
  have "map_of [(''bob'', [[1::real]])] ''alice'' = None"
    using build_skips_present_label [OF present run] by simp
  with run show ?thesis
    by (rule conjI)
qed

subsection \<open>The matcher of an empty gallery\<close>

text \<open>
  Claim C4. With the matcher of the library as the spec describes it: when no matcher is
  cached, the gallery is empty and the build finds no face for any configured label (or
  there is no label), \<^verbatim>\<open>setupFaceMatcher\<close> returns without an error, the gallery is
  still empty, a matcher built from no entries is cached, and that matcher answers every
  probe with the label \<open>unknown\<close> and no distance.
\<close>

theorem empty_gallery_matcher:
  assumes "faceMatcher s = None" and "labeledDescriptors s = []"
    and "\<forall>l \<in> set (labels (config s)). (\<exists>e. refs l = Fails e) \<or> refs l = Faces []"
  shows "\<exists>s'. setupFaceMatcher (specMatcher nearest) refs s = (None, s')
            \<and> labeledDescriptors s' = []
            \<and> faceMatcher s' = Some (FaceMatcher [])
            \<and> (\<forall>probe. findBestMatch (specMatcher nearest) (FaceMatcher []) probe
                          = Inr \<lparr>label = ''unknown'', distance = None\<rparr>)"
proof -
  have "fst ` set (fst (buildLoop refs (labels (config s)) [] s)) = {}"
    using assms(3) buildLoop_map [of refs "labels (config s)" "[]" s]
    by (auto simp: gallery_keys)
  then have empty: "fst (buildLoop refs (labels (config s)) [] s) = []"
    by simp
  show ?thesis
    using assms(1,2) empty
    by (simp add: setupFaceMatcher_def getLabeledFaceDescriptors_def specMatcher_def
          split_beta buildLoop_state)
qed

theorem empty_gallery_matcher_witness:
  "setupFaceMatcher (specMatcher nearestFirst) (\<lambda>l. Fails ''404'') (page [''bob''])
     = (None, (page [''bob''])
          \<lparr>fetched := [''/static/labels/bob.jpg''],
           console := [''Error processing image /static/labels/bob.jpg: 404''],
           labeledDescriptors := [],
           faceMatcher := Some (FaceMatcher [])\<rparr>)
   \<and> findBestMatch (specMatcher nearestFirst) (FaceMatcher []) [0.3]
       = Inr \<lparr>label = ''unknown'', distance = None\<rparr>"
proof -
  have a: "faceMatcher (page [''bob'']) = None"
    and b: "labeledDescriptors (page [''bob'']) = []"
    and c: "\<forall>l \<in> set (labels (config (page [''bob'']))).
              (\<exists>e. (\<lambda>l. Fails ''404'') l = Fails e) \<or> (\<lambda>l. Fails ''404'') l = Faces []"
    by (simp_all add: page_def constructor_def CONFIG_def)
  have run: "setupFaceMatcher (specMatcher nearestFirst) (\<lambda>l. Fails ''404'') (page [''bob''])
     = (None, (page [''bob''])
          \<lparr>fetched := [''/static/labels/bob.jpg''],
           console := [''Error processing image /static/labels/bob.jpg: 404''],
           labeledDescriptors := [],
           faceMatcher := Some (FaceMatcher [])\<rparr>)"
    by (simp add: setupFaceMatcher_def getLabeledFaceDescriptors_def specMatcher_def
          page_def constructor_def CONFIG_def imagePath_def)
  have "findBestMatch (specMatcher nearestFirst) (FaceMatcher []) [0.3]
       = Inr \<lparr>label = ''unknown'', distance = None\<rparr>"
    using empty_gallery_matcher [OF a b c, of nearestFirst] by blast
  with run show ?thesis
    by (rule conjI)
qed

subsection \<open>Sample runs\<close>

lemmas sample_defs = page_def constructor_def CONFIG_def running_def aliceOnly_def imagePath_def
  specMatcher_def nearestFirst_def threeFaces_def streamless_def firstLoop_def restarted_def
  nobody_def

lemmas method_defs = setupWebcam_def createCanvas_def takeCanvas_def updateCanvasSize_def
  startProcessing_def onPlay_def setupCanvas_def setupFaceMatcher_def getLabeledFaceDescriptors_def
  stopProcessing_def stopWebcam_def cleanupCanvas_def disposeFaceMatcher_def maxCanvasPoolSize_def
  processVideoFrames_def updateCanvas_def labelOf_def isKnown_def isSmiling_def

lemma firstLoop_run: "run (specMatcher nearestFirst) firstLoop (page [''alice'', ''bob'']) = running"
  by (simp add: sample_defs method_defs)

lemma restarted_run: "run (specMatcher nearestFirst) restarted (page [''alice'', ''bob'']) = streamless"
  by (simp add: restarted_def sample_defs method_defs)

lemma frame_streamless:
  "step (specMatcher nearestFirst) (AnimationFrame (Resized threeFaces)) (streamless\<lparr>painted := p\<rparr>)
     = streamless\<lparr>painted := [((10, 10, 50, 50), ''Known Smiling''),
                                  ((80, 10, 50, 50), ''Unknown Not Smiling''),
                                  ((150, 10, 50, 50), ''Known Not Smiling'')]\<rparr>"
  by (simp add: sample_defs method_defs)

lemma frames_streamless:
  "run (specMatcher nearestFirst) (replicate (Suc n) (AnimationFrame (Resized threeFaces))) (streamless\<lparr>painted := p\<rparr>)
     = streamless\<lparr>painted := [((10, 10, 50, 50), ''Known Smiling''),
                                  ((80, 10, 50, 50), ''Unknown Not Smiling''),
                                  ((150, 10, 50, 50), ''Known Not Smiling'')]\<rparr>"
proof (induction n arbitrary: p)
  case 0
  show ?case by (simp only: replicate_Suc replicate_0 run.simps frame_streamless)
next
  case (Suc n)
  show ?case
    by (simp only: replicate_Suc [of "Suc n"] run.simps frame_streamless Suc.IH)
qed

subsection \<open>A failing frame\<close>

lemma drawEach_frames:
  "drawEach api ds s = (r, s') \<Longrightarrow>
     animationFrames s' = animationFrames s \<and> console s' = console s"
proof (induction ds arbitrary: s)
  case Nil
  then show ?case by simp
next
  case (Cons d ds)
  show ?case
  proof (cases "faceMatcher s")
    case None
    with Cons.prems show ?thesis by simp
  next
    case (Some m)
    show ?thesis
    proof (cases "findBestMatch api m (descriptor d)")
      case (Inl e)
      with Some Cons.prems show ?thesis by simp
    next
      case (Inr best)
      with Some Cons.prems Cons.IH [of "s\<lparr>painted := painted s @ [(box d, labelOf (config s) best d)]\<rparr>"]
      show ?thesis by simp
    qed
  qed
qed

lemma updateCanvas_frames:
  "updateCanvas api ds s = (r, s') \<Longrightarrow>
     animationFrames s' = animationFrames s \<and> console s' = console s"
  using drawEach_frames [of api ds "s\<lparr>painted := []\<rparr>" r s']
  by (auto simp: updateCanvas_def split: option.splits)

lemma processVideoFrames_frames:
  assumes "processVideoFrames api fr s = (r, s')"
  shows "console s' = console s
       \<and> animationFrames s' = (if r = None then Suc (animationFrames s) else animationFrames s)"
proof (cases fr)
  case (DetectionFails e)
  with assms show ?thesis by (auto simp: processVideoFrames_def)
next
  case (ResizeFails e)
  with assms show ?thesis by (auto simp: processVideoFrames_def)
next
  case (Resized dets)
  obtain q t where u: "updateCanvas api dets s = (q, t)"
    by (cases "updateCanvas api dets s")
  from updateCanvas_frames [OF u] assms Resized u show ?thesis
    by (cases q) (auto simp: processVideoFrames_def)
qed

lemma updateCanvas_all:
  assumes "canvas s = Some c"
    and "\<forall>d \<in> set ds. faceMatcher s = Some m \<and> findBestMatch api m (descriptor d) = Inr (bestOf d)"
  shows "updateCanvas api ds s
     = (None, s\<lparr>painted := map (\<lambda>d. (box d, labelOf (config s) (bestOf d) d)) ds\<rparr>)"
proof -
  have "\<forall>d \<in> set ds. faceMatcher (s\<lparr>painted := []\<rparr>) = Some m
          \<and> findBestMatch api m (descriptor d) = Inr (bestOf d)"
    using assms(2) by simp
  from drawEach_all [OF this] show ?thesis
    using assms(1) by (simp add: updateCanvas_def)
qed

lemma updateCanvas_ok_iff:
  "fst (updateCanvas api ds s) = None \<longleftrightarrow>
     canvas s \<noteq> None
   \<and> (\<forall>d \<in> set ds. \<exists>m b. faceMatcher s = Some m \<and> findBestMatch api m (descriptor d) = Inr b)"
proof
  assume a: "fst (updateCanvas api ds s) = None"
  then obtain s' where u: "updateCanvas api ds s = (None, s')"
    by (cases "updateCanvas api ds s") simp
  then have c: "canvas s \<noteq> None" and run: "drawEach api ds (s\<lparr>painted := []\<rparr>) = (None, s')"
    by (auto simp: updateCanvas_def split: option.splits)
  from drawEach_painted [OF run]
  have "\<forall>d \<in> set ds. faceMatcher s \<noteq> None
          \<and> \<not> isl (findBestMatch api (the (faceMatcher s)) (descriptor d))"
    by simp
  then have "\<forall>d \<in> set ds. \<exists>m b. faceMatcher s = Some m \<and> findBestMatch api m (descriptor d) = Inr b"
    by (metis option.collapse sum.collapse(2))
  with c show "canvas s \<noteq> None
   \<and> (\<forall>d \<in> set ds. \<exists>m b. faceMatcher s = Some m \<and> findBestMatch api m (descriptor d) = Inr b)"
    by simp
next
  assume a: "canvas s \<noteq> None
   \<and> (\<forall>d \<in> set ds. \<exists>m b. faceMatcher s = Some m \<and> findBestMatch api m (descriptor d) = Inr b)"
  then obtain c where c: "canvas s = Some c" by auto
  from a have "\<forall>d \<in> set ds. faceMatcher s = Some (the (faceMatcher s))
      \<and> findBestMatch api (the (faceMatcher s)) (descriptor d)
          = Inr (projr (findBestMatch api (the (faceMatcher s)) (descriptor d)))"
    by auto
  from updateCanvas_all [OF c this] show "fst (updateCanvas api ds s) = None"
    by simp
qed

text \<open>
  Claim C3, as stated, has a failing frame caught and logged, and the next iteration
  scheduled all the same. \<^verbatim>\<open>processVideoFrames\<close> has no handler: when the detection of
  the only pending frame fails, nothing is logged and no frame is pending afterwards.
\<close>

theorem failing_frame_ends_loop:
  "step (specMatcher nearestFirst) (AnimationFrame (DetectionFails ''boom'')) running
     = running\<lparr>animationFrames := 0\<rparr>"
  by (simp add: processVideoFrames_def running_def)

text \<open>
  Claim C3, amended. For every frame-loop iteration in which the per-frame work
  (detection, resizing, matching or rendering) fails, the failure is neither caught nor
  logged inside that iteration: the error leaves \<^verbatim>\<open>processVideoFrames\<close> before
  \<^verbatim>\<open>requestAnimationFrame\<close>, so that iteration schedules no next one. An iteration
  returns normally, and then schedules exactly one next iteration, exactly when the
  detections arrive resized, the canvas is there and the matcher returns a match for
  every detection. The console is never written. A failed detection or resizing leaves
  the state as it was; so does a missing canvas; a missing matcher or a failing match
  ends the iteration at that face, with the labels of the faces before it drawn.
\<close>

theorem frame_error_not_contained:
  "(fst (processVideoFrames api fr s) = None \<longleftrightarrow>
      (\<exists>ds. fr = Resized ds \<and> canvas s \<noteq> None
         \<and> (\<forall>d \<in> set ds. \<exists>m b. faceMatcher s = Some m
                                \<and> findBestMatch api m (descriptor d) = Inr b)))
 \<and> console (snd (processVideoFrames api fr s)) = console s
 \<and> animationFrames (snd (processVideoFrames api fr s))
     = (if fst (processVideoFrames api fr s) = None then Suc (animationFrames s)
        else animationFrames s)
 \<and> (fr = DetectionFails x \<or> fr = ResizeFails x \<longrightarrow>
       processVideoFrames api fr s = (Some (Thrown x), s))
 \<and> (fr = Resized ds \<and> canvas s = None \<longrightarrow>
       processVideoFrames api fr s = (Some (TypeError ''getContext''), s))
 \<and> (fr = Resized (d # ds) \<and> canvas s \<noteq> None \<and> faceMatcher s = None \<longrightarrow>
       processVideoFrames api fr s = (Some (TypeError ''findBestMatch''), s\<lparr>painted := []\<rparr>))
 \<and> (fr = Resized (pre @ d # post) \<and> canvas s \<noteq> None \<and> faceMatcher s = Some m
      \<and> (\<forall>p \<in> set pre. findBestMatch api m (descriptor p) = Inr (bestOf p))
      \<and> findBestMatch api m (descriptor d) = Inl e \<longrightarrow>
       processVideoFrames api fr s
         = (Some e, s\<lparr>painted := map (\<lambda>d. (box d, labelOf (config s) (bestOf d) d)) pre\<rparr>))
 \<and> (fr = Resized ds \<and> canvas s \<noteq> None \<and> faceMatcher s = Some m
      \<and> (\<forall>p \<in> set ds. findBestMatch api m (descriptor p) = Inr (bestOf p)) \<longrightarrow>
       processVideoFrames api fr s
         = (None, s\<lparr>painted := map (\<lambda>d. (box d, labelOf (config s) (bestOf d) d)) ds,
                     animationFrames := Suc (animationFrames s)\<rparr>))"
proof -
  have a: "fst (processVideoFrames api fr s) = None \<longleftrightarrow>
      (\<exists>ds. fr = Resized ds \<and> canvas s \<noteq> None
         \<and> (\<forall>d \<in> set ds. \<exists>m b. faceMatcher s = Some m
                                \<and> findBestMatch api m (descriptor d) = Inr b))"
  proof (cases fr)
    case (Resized dets)
    have "fst (processVideoFrames api fr s) = None \<longleftrightarrow> fst (updateCanvas api dets s) = None"
      by (cases "updateCanvas api dets s")
         (auto simp: Resized processVideoFrames_def split: option.splits)
    then show ?thesis
      by (simp add: updateCanvas_ok_iff Resized)
  qed (simp_all add: processVideoFrames_def)
  obtain r t where run: "processVideoFrames api fr s = (r, t)"
    by (cases "processVideoFrames api fr s")
  from processVideoFrames_frames [OF run]
  have b: "console (snd (processVideoFrames api fr s)) = console s"
    and c: "animationFrames (snd (processVideoFrames api fr s))
     = (if fst (processVideoFrames api fr s) = None then Suc (animationFrames s)
        else animationFrames s)"
    by (simp_all add: run)
  have d: "fr = DetectionFails x \<or> fr = ResizeFails x \<longrightarrow>
       processVideoFrames api fr s = (Some (Thrown x), s)"
    by (auto simp: processVideoFrames_def)
  have e: "fr = Resized ds \<and> canvas s = None \<longrightarrow>
       processVideoFrames api fr s = (Some (TypeError ''getContext''), s)"
    by (auto simp: processVideoFrames_def updateCanvas_def)
  have f: "fr = Resized (d # ds) \<and> canvas s \<noteq> None \<and> faceMatcher s = None \<longrightarrow>
       processVideoFrames api fr s = (Some (TypeError ''findBestMatch''), s\<lparr>painted := []\<rparr>)"
    by (auto simp: processVideoFrames_def updateCanvas_def)
  have g: "fr = Resized (pre @ d # post) \<and> canvas s \<noteq> None \<and> faceMatcher s = Some m
      \<and> (\<forall>p \<in> set pre. findBestMatch api m (descriptor p) = Inr (bestOf p))
      \<and> findBestMatch api m (descriptor d) = Inl e \<longrightarrow>
       processVideoFrames api fr s
         = (Some e, s\<lparr>painted := map (\<lambda>d. (box d, labelOf (config s) (bestOf d) d)) pre\<rparr>)"
  proof
    assume h: "fr = Resized (pre @ d # post) \<and> canvas s \<noteq> None \<and> faceMatcher s = Some m
      \<and> (\<forall>p \<in> set pre. findBestMatch api m (descriptor p) = Inr (bestOf p))
      \<and> findBestMatch api m (descriptor d) = Inl e"
    let ?s0 = "s\<lparr>painted := []\<rparr>"
    from h have h1: "\<forall>p \<in> set pre. faceMatcher ?s0 = Some m
          \<and> findBestMatch api m (descriptor p) = Inr (bestOf p)"
      and h2: "faceMatcher ?s0 = Some m"
      and h3: "findBestMatch api m (descriptor d) = Inl e"
      by auto
    have "drawEach api (pre @ d # post) ?s0
       = (Some e, ?s0\<lparr>painted := painted ?s0
            @ map (\<lambda>d. (box d, labelOf (config ?s0) (bestOf d) d)) pre\<rparr>)"
      by (rule drawEach_fails [OF h1 h2 h3])
    with h show "processVideoFrames api fr s
         = (Some e, s\<lparr>painted := map (\<lambda>d. (box d, labelOf (config s) (bestOf d) d)) pre\<rparr>)"
      by (auto simp: processVideoFrames_def updateCanvas_def)
  qed
  have i: "fr = Resized ds \<and> canvas s \<noteq> None \<and> faceMatcher s = Some m
      \<and> (\<forall>p \<in> set ds. findBestMatch api m (descriptor p) = Inr (bestOf p)) \<longrightarrow>
       processVideoFrames api fr s
         = (None, s\<lparr>painted := map (\<lambda>d. (box d, labelOf (config s) (bestOf d) d)) ds,
                     animationFrames := Suc (animationFrames s)\<rparr>)"
  proof
    assume h: "fr = Resized ds \<and> canvas s \<noteq> None \<and> faceMatcher s = Some m
      \<and> (\<forall>p \<in> set ds. findBestMatch api m (descriptor p) = Inr (bestOf p))"
    then obtain c where c: "canvas s = Some c" by auto
    from h have "\<forall>d \<in> set ds. faceMatcher s = Some m
        \<and> findBestMatch api m (descriptor d) = Inr (bestOf d)"
      by simp
    from updateCanvas_all [OF c this] h
    show "processVideoFrames api fr s
         = (None, s\<lparr>painted := map (\<lambda>d. (box d, labelOf (config s) (bestOf d) d)) ds,
                     animationFrames := Suc (animationFrames s)\<rparr>)"
      by (simp add: processVideoFrames_def)
  qed
  from a b c d e f g i show ?thesis
    by (intro conjI)
qed


theorem frame_error_not_contained_witness:
  "processVideoFrames (specMatcher nearestFirst) (ResizeFails ''boom'') running
     = (Some (Thrown ''boom''), running)
   \<and> processVideoFrames (specMatcher nearestFirst) (Resized threeFaces) streamless
     = (None, streamless\<lparr>painted := [((10, 10, 50, 50), ''Known Smiling''),
                                       ((80, 10, 50, 50), ''Unknown Not Smiling''),
                                       ((150, 10, 50, 50), ''Known Not Smiling'')],
                          animationFrames := 2\<rparr>)
   \<and> processVideoFrames (specMatcher nearestFirst) (Resized threeFaces)
        (streamless\<lparr>canvas := None\<rparr>)
     = (Some (TypeError ''getContext''), streamless\<lparr>canvas := None\<rparr>)
   \<and> processVideoFrames
        ((specMatcher nearestFirst)
           \<lparr>findBestMatch := \<lambda>m p. if p = [0.6] then Inl (Thrown ''lib'')
                                    else Inr (nearestFirst [(''alice'', [[0]])] p)\<rparr>)
        (Resized threeFaces) running
     = (Some (Thrown ''lib''), running\<lparr>painted := [((10, 10, 50, 50), ''Known Smiling'')]\<rparr>)"
proof -
  let ?api = "(specMatcher nearestFirst)
           \<lparr>findBestMatch := \<lambda>m p. if p = [0.6] then Inl (Thrown ''lib'')
                                    else Inr (nearestFirst [(''alice'', [[0]])] p)\<rparr>"
  let ?best = "\<lambda>d. nearestFirst [(''alice'', [[0]])] (descriptor d)"
  have bad: "processVideoFrames (specMatcher nearestFirst) (ResizeFails ''boom'') running
     = (Some (Thrown ''boom''), running)"
    using frame_error_not_contained [of "specMatcher nearestFirst" "ResizeFails ''boom''" running "''boom''"]
    by simp
  have ok: "processVideoFrames (specMatcher nearestFirst) (Resized threeFaces) streamless
     = (None, streamless\<lparr>painted := [((10, 10, 50, 50), ''Known Smiling''),
                                       ((80, 10, 50, 50), ''Unknown Not Smiling''),
                                       ((150, 10, 50, 50), ''Known Not Smiling'')],
                          animationFrames := 2\<rparr>)"
    using frame_error_not_contained [of "specMatcher nearestFirst" "Resized threeFaces" streamless _ threeFaces _ _ _
                "FaceMatcher [(''alice'', [[0]])]" ?best]
    by (simp add: sample_defs labelOf_def isKnown_def isSmiling_def)
  have nocanvas: "processVideoFrames (specMatcher nearestFirst) (Resized threeFaces)
        (streamless\<lparr>canvas := None\<rparr>)
     = (Some (TypeError ''getContext''), streamless\<lparr>canvas := None\<rparr>)"
    using frame_error_not_contained [of "specMatcher nearestFirst" "Resized threeFaces" "streamless\<lparr>canvas := None\<rparr>"
                _ threeFaces]
    by simp
  have lib: "processVideoFrames ?api (Resized threeFaces) running
     = (Some (Thrown ''lib''), running\<lparr>painted := [((10, 10, 50, 50), ''Known Smiling'')]\<rparr>)"
    using frame_error_not_contained [of ?api "Resized threeFaces" running _ _ "threeFaces ! 1" "[threeFaces ! 0]"
                "[threeFaces ! 2]" "FaceMatcher [(''alice'', [[0]])]" ?best "Thrown ''lib''"]
    by (simp add: sample_defs labelOf_def isKnown_def isSmiling_def)
  from bad ok nocanvas lib show ?thesis
    by (intro conjI)
qed


subsection \<open>Stopping\<close>







text \<open>
  Claim C2. A stop requested while the frame loop runs should leave at most the iteration
  in flight and schedule nothing further. \<^verbatim>\<open>stopProcessing\<close> records nothing and
  \<^verbatim>\<open>processVideoFrames\<close> reschedules without a test, so the claim fails on the code
  where \<^verbatim>\<open>stopWebcam\<close> finds no stream to release. The run \<open>restarted\<close> reaches such a
  state: the \<^verbatim>\<open>play\<close> listener survives the first stop, and a second \<^verbatim>\<open>play\<close> starts the
  loop again with the camera released. There a stop changes nothing, and after any
  number of further frames each one has rendered and one more is pending.
\<close>

theorem stop_without_stream_loops_on:
  "run (specMatcher nearestFirst) restarted (page [''alice'', ''bob'']) = streamless
   \<and> videoStream streamless = None \<and> animationFrames streamless = 1
   \<and> step (specMatcher nearestFirst) (Stop throws) streamless = streamless
   \<and> run (specMatcher nearestFirst) (replicate (Suc n) (AnimationFrame (Resized threeFaces))) streamless
       = streamless\<lparr>painted := [((10, 10, 50, 50), ''Known Smiling''),
                                  ((80, 10, 50, 50), ''Unknown Not Smiling''),
                                  ((150, 10, 50, 50), ''Known Not Smiling'')]\<rparr>
   \<and> animationFrames (run (specMatcher nearestFirst)
         (replicate (Suc n) (AnimationFrame (Resized threeFaces))) streamless) = 1"
proof -
  have a: "streamless\<lparr>painted := []\<rparr> = streamless" by (simp add: sample_defs)
  have b: "run (specMatcher nearestFirst) (replicate (Suc n) (AnimationFrame (Resized threeFaces))) streamless
       = streamless\<lparr>painted := [((10, 10, 50, 50), ''Known Smiling''),
                                  ((80, 10, 50, 50), ''Unknown Not Smiling''),
                                  ((150, 10, 50, 50), ''Known Not Smiling'')]\<rparr>"
    using frames_streamless [of n "[]"] by (simp only: a)
  have c: "step (specMatcher nearestFirst) (Stop throws) streamless = streamless"
    by (simp add: streamless_def stopProcessing_def stopWebcam_def)
  have d: "videoStream streamless = None \<and> animationFrames streamless = 1"
    by (simp add: sample_defs)
  show ?thesis
    by (simp only: restarted_run b c d) (simp add: sample_defs)
qed






end
